theory Spec2Isabelle
  imports Complex_Main
begin

section \<open>The sandbox automation pipeline of backend/services/sandboxAIService.js\<close>

text \<open>
  The service turns inbound guest messages into summaries, replies, staff tasks,
  follow-ups and escalations. This theory embeds its functions as HOL functions over an
  explicit model of the store, and proves properties of them.

  Conventions of the embedding.
  \<^item> JavaScript strings are \<open>string\<close>: a character is a UTF-16 code unit below 256
    (ASCII and Latin-1), and \<open>toLowerCase\<close> is the JavaScript function on such text.
    Text with a code unit from 256 on is outside this type; among it are the few
    characters whose lower case is an ASCII letter, such as the Kelvin sign U+212A,
    which \<open>toLowerCase\<close> turns into \<open>k\<close>.
  \<^item> Columns that the code compares with string literals (\<open>message_type\<close>,
    \<open>processing_status\<close>, \<open>status\<close>, \<open>priority\<close>, ...) stay strings.
  \<^item> A summary or a reply parsed from the completion service is assumed to have the
    fields of the requested JSON object, with values of the requested types; the values
    themselves are arbitrary. The service is a function of the data its prompt is built
    from.
  \<^item> Timestamps are whole milliseconds, as a JavaScript \<open>Date\<close> holds them; a message
    body is text (a \<open>NULL\<close> body is outside the model).
\<close>

subsection \<open>Strings\<close>

text \<open>
  \<open>String.prototype.toLowerCase\<close> on one code unit below 256. The cased characters there
  are the letters A to Z (65 to 90) and the Latin-1 capitals from U+00C0 to U+00DE
  (192 to 222) without the multiplication sign U+00D7 (215); each has its lower-case
  form 32 places higher. No other code unit below 256 changes, and none is lowered to
  more than one code unit.
\<close>

definition toLowerCase_char :: "char \<Rightarrow> char" where
  "toLowerCase_char c =
     (let n = (of_char c :: nat)
      in if (65 \<le> n \<and> n \<le> 90) \<or> (192 \<le> n \<and> n \<le> 222 \<and> n \<noteq> 215)
         then char_of (n + 32) else c)"

definition toLowerCase :: "string \<Rightarrow> string" where
  "toLowerCase s = map toLowerCase_char s"

fun startsWith :: "string \<Rightarrow> string \<Rightarrow> bool" where
  "startsWith s [] = True"
| "startsWith [] (p # ps) = False"
| "startsWith (c # cs) (p # ps) = (c = p \<and> startsWith cs ps)"

text \<open>\<open>s.includes(pat)\<close>: \<open>pat\<close> occurs in \<open>s\<close> as a contiguous substring.\<close>

fun includes_str :: "string \<Rightarrow> string \<Rightarrow> bool" where
  "includes_str [] pat = (pat = [])"
| "includes_str (c # cs) pat = (startsWith (c # cs) pat \<or> includes_str cs pat)"

text \<open>\<open>xs.join(sep)\<close> on an array of strings.\<close>

fun join :: "string list \<Rightarrow> string \<Rightarrow> string" where
  "join [] sep = []"
| "join [x] sep = x"
| "join (x # y # ys) sep = x @ sep @ join (y # ys) sep"

text \<open>Decimal rendering of an integer, as a template literal renders a number.\<close>

fun show_nat :: "nat \<Rightarrow> string" where
  "show_nat n =
     (if n < 10 then [char_of (48 + n)]
      else show_nat (n div 10) @ [char_of (48 + n mod 10)])"

declare show_nat.simps [simp del]

definition show_int :: "int \<Rightarrow> string" where
  "show_int i = (if i < 0 then ''-'' @ show_nat (nat (- i)) else show_nat (nat i))"

subsection \<open>Summaries and the fallback summarizer\<close>

record summary =
  language :: string
  sentiment :: string
  tone :: string
  actionRequired :: bool
  actionTitle :: string
  category :: string
  priority :: string
  keyInformation :: "string list"
  suggestedResponse :: string

text \<open>
  \<open>getMockSummary(messageText)\<close>: the keyword rules are tried in the order of the source's
  \<open>if\<close>/\<open>else if\<close> chain, on the lower-cased text.
\<close>

definition getMockSummary :: "string \<Rightarrow> summary" where
  "getMockSummary messageText =
     (let message = toLowerCase messageText;
          (category', actionRequired', priority', sentiment', actionTitle') =
            (if includes_str message ''key'' \<or> includes_str message ''check in'' \<or> includes_str message ''access''
             then (''check-in'', True, ''high'', ''neutral'', ''Help with property access'')
             else if includes_str message ''wifi'' \<or> includes_str message ''broken'' \<or> includes_str message ''fix''
             then (''maintenance'', True, ''medium'', ''neutral'', ''Maintenance request'')
             else if includes_str message ''noise'' \<or> includes_str message ''complaint'' \<or> includes_str message ''problem''
             then (''complaint'', True, ''high'', ''negative'', ''Address guest complaint'')
             else if includes_str message ''clean''
             then (''cleaning'', True, ''medium'', ''neutral'', ''Cleaning request'')
             else (''general'', False, ''medium'', ''neutral'', ''Message received''))
      in \<lparr> language = ''en'',
           sentiment = sentiment',
           tone = (if sentiment' = ''negative'' then ''frustrated'' else ''friendly''),
           actionRequired = actionRequired',
           actionTitle = actionTitle',
           category = category',
           priority = priority',
           keyInformation = [actionTitle'],
           suggestedResponse =
             (if actionRequired'
              then ''Thank you for letting me know. I'' @ [CHR 0x27] @ ''ll take care of this right away.''
              else ''Thank you for your message. Is there anything I can help you with?'') \<rparr>)"

subsection \<open>Replies and the fallback responder\<close>

record response =
  message :: string
  requiresFollowUp :: bool
  escalationNeeded :: bool
  taskType :: string

text \<open>\<open>getMockResponse(summary)\<close>: a \<open>switch\<close> on the category, with a default branch.\<close>

definition getMockResponse :: "summary \<Rightarrow> response" where
  "getMockResponse s =
     (let (tail, taskType', escalationNeeded') =
            (if category s = ''check-in''
             then (''The door code is 1234. You can find detailed check-in instructions in your booking confirmation.'',
                   ''none'', False)
             else if category s = ''maintenance''
             then (''I'' @ [CHR 0x27] @ ''m sorry to hear about this issue. I'' @ [CHR 0x27]
                     @ ''ll send someone to take a look at it right away.'',
                   ''maintenance'', False)
             else if category s = ''cleaning''
             then (''I'' @ [CHR 0x27] @ ''ll arrange for housekeeping to address this immediately.'',
                   ''cleaning'', False)
             else if category s = ''complaint''
             then (''I sincerely apologize for this inconvenience. I'' @ [CHR 0x27]
                     @ ''m taking immediate action to resolve this issue.'',
                   ''none'', True)
             else (''Is there anything specific I can help you with during your stay?'', ''none'', False))
      in \<lparr> message = ''Thank you for your message! '' @ tail,
           requiresFollowUp = (priority s = ''high''),
           escalationNeeded = escalationNeeded',
           taskType = taskType' \<rparr>)"

subsection \<open>The store and the environment\<close>

text \<open>
  The tables the pipeline reads and writes, with the columns it uses. Column names that
  occur in several tables are prefixed (\<open>ml_\<close> for \<open>message_log\<close>, \<open>sap_\<close> for
  \<open>sandbox_ai_processing\<close>, \<open>t_\<close> for \<open>sandbox_tasks\<close>, \<open>ss_\<close> for \<open>sandbox_sessions\<close>).
  \<open>sandbox_sessions\<close> and \<open>properties\<close> have a primary key \<open>id\<close> and are maps from it.
\<close>

record scenario_data =
  property_id :: "int option"
  guest_name :: "string option"
  check_in_date :: "string option"
  check_out_date :: "string option"

record session_row =
  ss_account_id :: int
  ss_scenario_data :: scenario_data

record property_row =
  property_title :: "string option"
  property_location :: "string option"
  check_in_time :: "string option"
  check_out_time :: "string option"

record outbound_metadata =
  generated_from :: string
  md_summary :: summary

record message_row =
  ml_account_id :: "int option"
  ml_message_uuid :: string
  ml_timestamp :: int
  ml_from_number :: string
  ml_to_number :: string
  ml_message_body :: string
  ml_message_type :: string
  ml_requestor_role :: string
  ml_is_sandbox :: bool
  ml_sandbox_session_id :: "string option"
  ml_sandbox_metadata :: "outbound_metadata option"

text \<open>The context object of \<open>buildMessageContext\<close>.\<close>

record property_info =
  pi_id :: "int option"
  pi_name :: "string option"
  pi_address :: "string option"
  pi_checkIn :: "string option"
  pi_checkOut :: "string option"

record guest_info =
  g_name :: string
  g_phone :: string
  g_bookingDates_checkIn :: "string option"
  g_bookingDates_checkOut :: "string option"

record history_entry =
  h_text :: string
  h_type :: string
  h_timestamp :: int

record context_obj =
  ctx_property :: property_info
  ctx_guest :: guest_info
  conversationHistory :: "history_entry list"

text \<open>The JSON stored in \<open>input_data\<close> and \<open>output_data\<close> of a processing record.\<close>

datatype json_data =
    SummarizationInput string context_obj
  | SummaryData summary
  | ResponseInput summary
  | ResponseData response

record processing_row =
  sap_sandbox_session_id :: string
  sap_message_uuid :: string
  sap_processing_type :: string
  sap_input_data :: json_data
  sap_output_data :: json_data
  sap_ai_model :: string
  sap_processing_status :: string
  sap_processed_at :: int

record task_row =
  t_sandbox_session_id :: string
  t_task_uuid :: string
  t_task_type :: string
  t_title :: string
  t_description :: string
  t_property_id :: "string option"
  t_assignee_name :: string
  t_assignee_role :: string
  t_status :: string
  t_priority :: string
  t_created_from_message_uuid :: string
  t_metadata :: summary
  t_created_at :: int

text \<open>
  The world of a run: the tables, and what the environment supplies.
  \<^item> \<open>faults\<close> scripts the store: each \<open>pool.connect()\<close> and each \<open>client.query(...)\<close>
    consumes one entry, and \<open>True\<close> means that this call throws (store unavailable,
    constraint violation). An exhausted script means no further fault.
  \<^item> \<open>clock\<close> is the time in milliseconds that \<open>Date.now()\<close> and SQL \<open>NOW()\<close> read; one
    run reads one clock value.
  \<^item> \<open>randoms\<close> supplies the strings \<open>Math.random().toString(36).substr(2, 9)\<close>, one per
    call (the empty string once exhausted).
\<close>

record world =
  sandbox_sessions :: "string \<rightharpoonup> session_row"
  properties :: "int \<rightharpoonup> property_row"
  message_log :: "message_row list"
  sandbox_ai_processing :: "processing_row list"
  sandbox_tasks :: "task_row list"
  faults :: "bool list"
  clock :: int
  randoms :: "string list"

datatype error = StoreError

definition client_call :: "world \<Rightarrow> bool \<times> world" where
  "client_call w = (case faults w of [] \<Rightarrow> (False, w) | f # fs \<Rightarrow> (f, w\<lparr>faults := fs\<rparr>))"

definition Math_random :: "world \<Rightarrow> string \<times> world" where
  "Math_random w = (case randoms w of [] \<Rightarrow> ([], w) | r # rs \<Rightarrow> (r, w\<lparr>randoms := rs\<rparr>))"

text \<open>\<open>a || b\<close> on a possibly undefined string: the empty string is falsy as well.\<close>

definition or_default :: "string option \<Rightarrow> string \<Rightarrow> string" where
  "or_default a b = (case a of None \<Rightarrow> b | Some v \<Rightarrow> if v = [] then b else v)"

subsection \<open>The completion capability\<close>

text \<open>
  \<open>this.openai\<close> is \<open>null\<close> when no API key is configured. A configured capability is
  modelled by what the two calls return for the data their prompts are built from:
  \<open>None\<close> when the call or \<open>JSON.parse\<close> throws, the parsed object otherwise.
\<close>

record summary_entry =
  se_message_uuid :: string
  original_message :: string
  se_summary :: summary

record capability =
  summary_completion :: "context_obj \<Rightarrow> string \<Rightarrow> summary option"
  response_completion :: "summary_entry \<Rightarrow> property_row option \<Rightarrow> response option"

record service =
  openai :: "capability option"
  model :: string

subsection \<open>The summarizer\<close>

text \<open>A row of the first query of \<open>processSummarizeMessages\<close>: \<open>ml.*\<close> joined with the
  session's \<open>scenario_data\<close> and, by a left join, the property it names.\<close>

record joined_message =
  jm_row :: message_row
  jm_scenario_data :: scenario_data
  jm_property :: "property_row option"

definition completed_summarizations :: "world \<Rightarrow> string \<Rightarrow> string \<Rightarrow> processing_row list" where
  "completed_summarizations w sessionId uuid =
     filter (\<lambda>sap. sap_sandbox_session_id sap = sessionId \<and> sap_message_uuid sap = uuid
                   \<and> sap_processing_type sap = ''summarization''
                   \<and> sap_processing_status sap = ''completed'')
            (sandbox_ai_processing w)"

text \<open>
  The unprocessed inbound messages of the session, \<open>ORDER BY ml.timestamp ASC\<close>. SQL leaves
  the order of rows with equal timestamps open; the model keeps their table order.
\<close>

definition messagesQuery :: "world \<Rightarrow> string \<Rightarrow> joined_message list" where
  "messagesQuery w sessionId =
     (case sandbox_sessions w sessionId of
        None \<Rightarrow> []
      | Some ss \<Rightarrow>
          map (\<lambda>ml. \<lparr> jm_row = ml,
                      jm_scenario_data = ss_scenario_data ss,
                      jm_property = (case property_id (ss_scenario_data ss) of
                                       None \<Rightarrow> None
                                     | Some pid \<Rightarrow> properties w pid) \<rparr>)
            (sort_key ml_timestamp
               (filter (\<lambda>ml. ml_sandbox_session_id ml = Some sessionId
                             \<and> ml_is_sandbox ml
                             \<and> ml_message_type ml = ''Inbound''
                             \<and> completed_summarizations w sessionId (ml_message_uuid ml) = [])
                       (message_log w))))"

text \<open>The history query: \<open>timestamp < $2 ORDER BY timestamp DESC LIMIT 10\<close>.\<close>

definition historyQuery :: "world \<Rightarrow> string \<Rightarrow> int \<Rightarrow> message_row list" where
  "historyQuery w sessionId ts =
     take 10 (rev (sort_key ml_timestamp
       (filter (\<lambda>ml. ml_sandbox_session_id ml = Some sessionId \<and> ml_timestamp ml < ts)
               (message_log w))))"

text \<open>The callback of \<open>history.map\<close> in \<open>buildMessageContext\<close>.\<close>

definition history_entry_of :: "message_row \<Rightarrow> history_entry" where
  "history_entry_of h =
     \<lparr> h_text = ml_message_body h, h_type = ml_message_type h, h_timestamp = ml_timestamp h \<rparr>"

text \<open>\<open>buildMessageContext(message, history)\<close>: the history is mapped in the order it is
  given; the function does not reorder it.\<close>

definition buildMessageContext :: "joined_message \<Rightarrow> message_row list \<Rightarrow> context_obj" where
  "buildMessageContext m history =
     (let scenarioData = jm_scenario_data m
      in \<lparr> ctx_property =
             \<lparr> pi_id = property_id scenarioData,
               pi_name = (case jm_property m of None \<Rightarrow> None | Some p \<Rightarrow> property_title p),
               pi_address = (case jm_property m of None \<Rightarrow> None | Some p \<Rightarrow> property_location p),
               pi_checkIn = (case jm_property m of None \<Rightarrow> None | Some p \<Rightarrow> check_in_time p),
               pi_checkOut = (case jm_property m of None \<Rightarrow> None | Some p \<Rightarrow> check_out_time p) \<rparr>,
           ctx_guest =
             \<lparr> g_name = or_default (guest_name scenarioData) ''Guest'',
               g_phone = ml_from_number (jm_row m),
               g_bookingDates_checkIn = check_in_date scenarioData,
               g_bookingDates_checkOut = check_out_date scenarioData \<rparr>,
           conversationHistory = map history_entry_of history \<rparr>)"

definition generateMessageSummary :: "service \<Rightarrow> context_obj \<Rightarrow> joined_message \<Rightarrow> summary" where
  "generateMessageSummary svc context m =
     (case openai svc of
        None \<Rightarrow> getMockSummary (ml_message_body (jm_row m))
      | Some cap \<Rightarrow>
          (case summary_completion cap context (ml_message_body (jm_row m)) of
             None \<Rightarrow> getMockSummary (ml_message_body (jm_row m))
           | Some s \<Rightarrow> s))"

text \<open>What one iteration of the loop computes for a message, in the world it runs in.\<close>

definition context_for :: "world \<Rightarrow> string \<Rightarrow> joined_message \<Rightarrow> context_obj" where
  "context_for w sessionId m =
     buildMessageContext m (historyQuery w sessionId (ml_timestamp (jm_row m)))"

definition summarization_record ::
  "service \<Rightarrow> world \<Rightarrow> string \<Rightarrow> joined_message \<Rightarrow> processing_row" where
  "summarization_record svc w sessionId m =
     \<lparr> sap_sandbox_session_id = sessionId,
       sap_message_uuid = ml_message_uuid (jm_row m),
       sap_processing_type = ''summarization'',
       sap_input_data = SummarizationInput (ml_message_body (jm_row m)) (context_for w sessionId m),
       sap_output_data = SummaryData (generateMessageSummary svc (context_for w sessionId m) m),
       sap_ai_model = model svc,
       sap_processing_status = ''completed'',
       sap_processed_at = clock w \<rparr>"

definition summary_entry_of :: "service \<Rightarrow> world \<Rightarrow> string \<Rightarrow> joined_message \<Rightarrow> summary_entry" where
  "summary_entry_of svc w sessionId m =
     \<lparr> se_message_uuid = ml_message_uuid (jm_row m),
       original_message = ml_message_body (jm_row m),
       se_summary = generateMessageSummary svc (context_for w sessionId m) m \<rparr>"

text \<open>
  The \<open>for\<close> loop over the rows: the history query, the summary, the insert of the
  processing record, the push. A throwing query leaves the loop with the error; the
  records inserted before it stay.
\<close>

fun summarize_loop ::
  "service \<Rightarrow> string \<Rightarrow> joined_message list \<Rightarrow> summary_entry list \<Rightarrow> world
     \<Rightarrow> (error + summary_entry list) \<times> world" where
  "summarize_loop svc sessionId [] summaries w = (Inr summaries, w)"
| "summarize_loop svc sessionId (m # ms) summaries w =
     (if fst (client_call w) then (Inl StoreError, snd (client_call w))
      else let w1 = snd (client_call w)
           in if fst (client_call w1) then (Inl StoreError, snd (client_call w1))
              else let w2 = snd (client_call w1)
                   in summarize_loop svc sessionId ms
                        (summaries @ [summary_entry_of svc w1 sessionId m])
                        (w2\<lparr>sandbox_ai_processing :=
                              sandbox_ai_processing w2 @ [summarization_record svc w1 sessionId m]\<rparr>))"

definition processSummarizeMessages ::
  "service \<Rightarrow> string \<Rightarrow> int \<Rightarrow> world \<Rightarrow> (error + summary_entry list) \<times> world" where
  "processSummarizeMessages svc sessionId accountId w =
     (if fst (client_call w) then (Inl StoreError, snd (client_call w))
      else let w1 = snd (client_call w)
           in if fst (client_call w1) then (Inl StoreError, snd (client_call w1))
              else let w2 = snd (client_call w1)
                   in summarize_loop svc sessionId (messagesQuery w2 sessionId) [] w2)"

subsection \<open>The responder\<close>

text \<open>
  \<open>getPropertyData\<close>: the session's property (left join), \<open>rows[0] || {}\<close>. Its FAQs and
  further columns only feed the prompt of the completion call and are not modelled.
\<close>

definition getPropertyData_result :: "world \<Rightarrow> string \<Rightarrow> property_row option" where
  "getPropertyData_result w sessionId =
     (case sandbox_sessions w sessionId of
        None \<Rightarrow> None
      | Some ss \<Rightarrow> (case property_id (ss_scenario_data ss) of
                     None \<Rightarrow> None
                   | Some pid \<Rightarrow> properties w pid))"

definition generateAiResponse :: "service \<Rightarrow> summary_entry \<Rightarrow> property_row option \<Rightarrow> response" where
  "generateAiResponse svc s propertyData =
     (case openai svc of
        None \<Rightarrow> getMockResponse (se_summary s)
      | Some cap \<Rightarrow>
          (case response_completion cap s propertyData of
             None \<Rightarrow> getMockResponse (se_summary s)
           | Some r \<Rightarrow> r))"

text \<open>
  \<open>summary.original_message\<close> is the body of the inbound message, a string
  (\<open>original_message: message.message_body\<close> in \<open>processSummarizeMessages\<close>). Reading the
  property \<open>from_number\<close> of a string gives \<open>undefined\<close>.
\<close>

definition from_number_of :: "string \<Rightarrow> string option" where
  "from_number_of original = None"

record response_entry =
  re_message_uuid :: string
  re_response :: string
  re_metadata :: response

definition response_uuid :: "world \<Rightarrow> string" where
  "response_uuid w = ''RESP_'' @ show_int (clock w) @ ''_'' @ fst (Math_random w)"

definition outbound_message :: "world \<Rightarrow> string \<Rightarrow> string \<Rightarrow> summary_entry \<Rightarrow> response \<Rightarrow> message_row" where
  "outbound_message w sessionId messageUuid s r =
     \<lparr> ml_account_id = (case sandbox_sessions w sessionId of
                          None \<Rightarrow> None | Some ss \<Rightarrow> Some (ss_account_id ss)),
       ml_message_uuid = messageUuid,
       ml_timestamp = clock w,
       ml_from_number = ''System'',
       ml_to_number = or_default (from_number_of (original_message s)) ''Guest'',
       ml_message_body = message r,
       ml_message_type = ''Outbound'',
       ml_requestor_role = ''ai'',
       ml_is_sandbox = True,
       ml_sandbox_session_id = Some sessionId,
       ml_sandbox_metadata = Some \<lparr> generated_from = se_message_uuid s, md_summary = se_summary s \<rparr> \<rparr>"

definition response_record :: "service \<Rightarrow> world \<Rightarrow> string \<Rightarrow> string \<Rightarrow> summary_entry \<Rightarrow> response \<Rightarrow> processing_row" where
  "response_record svc w sessionId messageUuid s r =
     \<lparr> sap_sandbox_session_id = sessionId,
       sap_message_uuid = messageUuid,
       sap_processing_type = ''response_generation'',
       sap_input_data = ResponseInput (se_summary s),
       sap_output_data = ResponseData r,
       sap_ai_model = model svc,
       sap_processing_status = ''completed'',
       sap_processed_at = clock w \<rparr>"

text \<open>
  The loop of \<open>buildAiResponseFromSummaries\<close>. Nothing in the loop catches: a throwing
  query ends the run with the error. The three store calls of an iteration are the
  property query, the insert into \<open>message_log\<close> and the insert into
  \<open>sandbox_ai_processing\<close>.
\<close>

fun respond_loop ::
  "service \<Rightarrow> string \<Rightarrow> summary_entry list \<Rightarrow> response_entry list \<Rightarrow> world
     \<Rightarrow> (error + response_entry list) \<times> world" where
  "respond_loop svc sessionId [] responses w = (Inr responses, w)"
| "respond_loop svc sessionId (s # ss) responses w =
     (if \<not> actionRequired (se_summary s) then respond_loop svc sessionId ss responses w
      else if fst (client_call w) then (Inl StoreError, snd (client_call w))
      else let w1 = snd (client_call w);
               r = generateAiResponse svc s (getPropertyData_result w1 sessionId);
               messageUuid = response_uuid w1;
               w2 = snd (Math_random w1)
           in if fst (client_call w2) then (Inl StoreError, snd (client_call w2))
              else let w3 = snd (client_call w2);
                       w4 = w3\<lparr>message_log :=
                                 message_log w3 @ [outbound_message w3 sessionId messageUuid s r]\<rparr>
                   in if fst (client_call w4) then (Inl StoreError, snd (client_call w4))
                      else let w5 = snd (client_call w4)
                           in respond_loop svc sessionId ss
                                (responses @ [\<lparr> re_message_uuid = messageUuid,
                                                re_response = message r,
                                                re_metadata = r \<rparr>])
                                (w5\<lparr>sandbox_ai_processing :=
                                      sandbox_ai_processing w5
                                        @ [response_record svc w5 sessionId messageUuid s r]\<rparr>))"

definition buildAiResponseFromSummaries ::
  "service \<Rightarrow> string \<Rightarrow> summary_entry list \<Rightarrow> world \<Rightarrow> (error + response_entry list) \<times> world" where
  "buildAiResponseFromSummaries svc sessionId summaries w =
     (if fst (client_call w) then (Inl StoreError, snd (client_call w))
      else respond_loop svc sessionId summaries [] (snd (client_call w)))"

subsection \<open>The task generator\<close>

record task_details =
  td_title :: string
  td_description :: string
  td_type :: string
  td_assignee_name :: string
  td_assignee_role :: string

definition determineTaskDetails :: "summary \<Rightarrow> task_details" where
  "determineTaskDetails s =
     (let title = (if actionTitle s = [] then ''Guest Request'' else actionTitle s);
          description = ''Category: '' @ category s @ [CHR 0x0A] @ ''Priority: '' @ priority s
                          @ [CHR 0x0A] @ ''Details: '' @ join (keyInformation s) '', ''
      in if category s = ''maintenance''
         then \<lparr> td_title = title, td_description = description, td_type = ''maintenance'',
                td_assignee_name = ''Maintenance Team'', td_assignee_role = ''Maintenance Staff'' \<rparr>
         else if category s = ''cleaning''
         then \<lparr> td_title = title, td_description = description, td_type = ''cleaning'',
                td_assignee_name = ''Cleaning Team'', td_assignee_role = ''Cleaning Staff'' \<rparr>
         else if category s = ''complaint''
         then \<lparr> td_title = title, td_description = description, td_type = ''inspection'',
                td_assignee_name = ''Property Manager'', td_assignee_role = ''Management'' \<rparr>
         else \<lparr> td_title = title, td_description = description, td_type = ''general'',
                td_assignee_name = ''Support Team'', td_assignee_role = ''Support Staff'' \<rparr>)"

text \<open>The gate of \<open>createStaffTasks\<close>, as the source writes it: the list is tested
  against the summary's \<open>priority\<close>.\<close>

definition needsTask :: "summary \<Rightarrow> bool" where
  "needsTask s =
     (actionRequired s \<and> priority s \<in> set [''maintenance'', ''cleaning'', ''urgent''])"

record task_entry =
  te_task_uuid :: string
  te_details :: task_details

definition task_uuid_of :: "world \<Rightarrow> string" where
  "task_uuid_of w = ''TASK_'' @ show_int (clock w) @ ''_'' @ fst (Math_random w)"

text \<open>The inserted row: \<open>taskDetails\<close> has no \<open>property_id\<close>, so that column is \<open>NULL\<close>;
  \<open>created_at\<close> takes its default, the current time.\<close>

definition task_record :: "world \<Rightarrow> string \<Rightarrow> string \<Rightarrow> summary_entry \<Rightarrow> task_row" where
  "task_record w sessionId taskUuid s =
     (let taskDetails = determineTaskDetails (se_summary s)
      in \<lparr> t_sandbox_session_id = sessionId,
           t_task_uuid = taskUuid,
           t_task_type = td_type taskDetails,
           t_title = td_title taskDetails,
           t_description = td_description taskDetails,
           t_property_id = None,
           t_assignee_name = td_assignee_name taskDetails,
           t_assignee_role = td_assignee_role taskDetails,
           t_status = ''pending'',
           t_priority = priority (se_summary s),
           t_created_from_message_uuid = se_message_uuid s,
           t_metadata = se_summary s,
           t_created_at = clock w \<rparr>)"

fun task_loop ::
  "string \<Rightarrow> summary_entry list \<Rightarrow> task_entry list \<Rightarrow> world
     \<Rightarrow> (error + task_entry list) \<times> world" where
  "task_loop sessionId [] tasks w = (Inr tasks, w)"
| "task_loop sessionId (s # ss) tasks w =
     (if \<not> needsTask (se_summary s) then task_loop sessionId ss tasks w
      else let taskUuid = task_uuid_of w;
               w1 = snd (Math_random w)
           in if fst (client_call w1) then (Inl StoreError, snd (client_call w1))
              else let w2 = snd (client_call w1)
                   in task_loop sessionId ss
                        (tasks @ [\<lparr> te_task_uuid = taskUuid,
                                    te_details = determineTaskDetails (se_summary s) \<rparr>])
                        (w2\<lparr>sandbox_tasks :=
                              sandbox_tasks w2 @ [task_record w2 sessionId taskUuid s]\<rparr>))"

definition createStaffTasks ::
  "string \<Rightarrow> summary_entry list \<Rightarrow> world \<Rightarrow> (error + task_entry list) \<times> world" where
  "createStaffTasks sessionId summaries w =
     (if fst (client_call w) then (Inl StoreError, snd (client_call w))
      else task_loop sessionId summaries [] (snd (client_call w)))"

subsection \<open>The follow-up evaluator\<close>

text \<open>Open tasks of the session, \<open>ORDER BY created_at ASC\<close>.\<close>

definition tasksQuery :: "world \<Rightarrow> string \<Rightarrow> task_row list" where
  "tasksQuery w sessionId =
     sort_key t_created_at
       (filter (\<lambda>t. t_sandbox_session_id t = sessionId
                    \<and> t_status t \<in> set [''pending'', ''in-progress''])
               (sandbox_tasks w))"

text \<open>
  \<open>(Date.now() - new Date(task.created_at)) / (1000 * 60 * 60)\<close>. Both times are whole
  milliseconds; the quotient is taken exactly.
\<close>

definition hoursSinceCreated :: "int \<Rightarrow> int \<Rightarrow> rat" where
  "hoursSinceCreated now created_at = of_int (now - created_at) / (1000 * 60 * 60)"

definition Math_round :: "rat \<Rightarrow> int" where
  "Math_round q = \<lfloor>q + 1 / 2\<rfloor>"

record follow_up =
  fu_task_uuid :: string
  fu_message :: string
  fu_type :: string

definition reminder :: "int \<Rightarrow> task_row \<Rightarrow> follow_up" where
  "reminder now task =
     \<lparr> fu_task_uuid = t_task_uuid task,
       fu_message = ''Following up on '' @ t_title task @ '' - this task has been pending for ''
                      @ show_int (Math_round (hoursSinceCreated now (t_created_at task)))
                      @ '' hours.'',
       fu_type = ''reminder'' \<rparr>"

fun followUp_loop :: "int \<Rightarrow> task_row list \<Rightarrow> follow_up list \<Rightarrow> follow_up list" where
  "followUp_loop now [] followUps = followUps"
| "followUp_loop now (task # rest) followUps =
     (if hoursSinceCreated now (t_created_at task) > 2 \<and> t_status task = ''pending''
      then followUp_loop now rest (followUps @ [reminder now task])
      else followUp_loop now rest followUps)"

definition evaluateTaskStatus :: "string \<Rightarrow> world \<Rightarrow> (error + follow_up list) \<times> world" where
  "evaluateTaskStatus sessionId w =
     (if fst (client_call w) then (Inl StoreError, snd (client_call w))
      else let w1 = snd (client_call w)
           in if fst (client_call w1) then (Inl StoreError, snd (client_call w1))
              else let w2 = snd (client_call w1)
                   in (Inr (followUp_loop (clock w2) (tasksQuery w2 sessionId) []), w2))"

subsection \<open>The escalation detector\<close>

record escalation =
  esc_message_uuid :: string
  esc_reason :: string
  esc_summary :: summary
  esc_recommended_action :: string

definition escalation_of :: "summary_entry \<Rightarrow> escalation" where
  "escalation_of s =
     \<lparr> esc_message_uuid = se_message_uuid s,
       esc_reason = ''Urgent guest request'',
       esc_summary = se_summary s,
       esc_recommended_action = ''Immediate host attention required'' \<rparr>"

fun escalation_loop :: "summary_entry list \<Rightarrow> escalation list \<Rightarrow> escalation list" where
  "escalation_loop [] escalations = escalations"
| "escalation_loop (s # ss) escalations =
     (if priority (se_summary s) = ''urgent'' \<or> sentiment (se_summary s) = ''urgent''
      then escalation_loop ss (escalations @ [escalation_of s])
      else escalation_loop ss escalations)"

text \<open>\<open>processHostEscalations\<close> takes no store handle: it is a function of its arguments.\<close>

definition processHostEscalations :: "string \<Rightarrow> summary_entry list \<Rightarrow> escalation list" where
  "processHostEscalations sessionId summaries = escalation_loop summaries []"

subsection \<open>The orchestrator\<close>

text \<open>\<open>runFullAutomation\<close>: the five stages in order; an error of a stage is logged and
  thrown again, so it ends the run.\<close>

record pipeline_result =
  pr_summaries :: "summary_entry list"
  pr_responses :: "response_entry list"
  pr_tasks :: "task_entry list"
  pr_followUps :: "follow_up list"
  pr_escalations :: "escalation list"
  pr_success :: bool

definition runFullAutomation ::
  "service \<Rightarrow> string \<Rightarrow> int \<Rightarrow> world \<Rightarrow> (error + pipeline_result) \<times> world" where
  "runFullAutomation svc sessionId accountId w =
     (case processSummarizeMessages svc sessionId accountId w of
        (Inl e, w1) \<Rightarrow> (Inl e, w1)
      | (Inr summaries, w1) \<Rightarrow>
     (case buildAiResponseFromSummaries svc sessionId summaries w1 of
        (Inl e, w2) \<Rightarrow> (Inl e, w2)
      | (Inr responses, w2) \<Rightarrow>
     (case createStaffTasks sessionId summaries w2 of
        (Inl e, w3) \<Rightarrow> (Inl e, w3)
      | (Inr tasks, w3) \<Rightarrow>
     (case evaluateTaskStatus sessionId w3 of
        (Inl e, w4) \<Rightarrow> (Inl e, w4)
      | (Inr followUps, w4) \<Rightarrow>
          (Inr \<lparr> pr_summaries = summaries, pr_responses = responses, pr_tasks = tasks,
                 pr_followUps = followUps,
                 pr_escalations = processHostEscalations sessionId summaries,
                 pr_success = True \<rparr>, w4)))))"

section \<open>Notions used in the statements\<close>

text \<open>The schema of a summary: every field present, the enumerated ones in range.\<close>

definition valid_summary :: "summary \<Rightarrow> bool" where
  "valid_summary s =
     (language s \<noteq> [] \<and>
      sentiment s \<in> set [''positive'', ''neutral'', ''negative'', ''urgent''] \<and>
      tone s \<in> set [''friendly'', ''formal'', ''frustrated'', ''confused''] \<and>
      actionTitle s \<noteq> [] \<and>
      category s \<in> set [''booking'', ''maintenance'', ''check-in'', ''check-out'', ''amenities'',
                        ''complaint'', ''cleaning'', ''general''] \<and>
      priority s \<in> set [''low'', ''medium'', ''high'', ''urgent''] \<and>
      keyInformation s \<noteq> [] \<and>
      suggestedResponse s \<noteq> [])"

text \<open>The schema of a reply.\<close>

definition valid_response :: "response \<Rightarrow> bool" where
  "valid_response r =
     (message r \<noteq> [] \<and> taskType r \<in> set [''cleaning'', ''maintenance'', ''none''])"

text \<open>The first \<open>n\<close> store calls from this world on do not throw.\<close>

definition store_ok :: "nat \<Rightarrow> world \<Rightarrow> bool" where
  "store_ok n w = (True \<notin> set (take n (faults w)))"


text \<open>A summary that the escalation detector flags.\<close>

definition is_urgent :: "summary_entry \<Rightarrow> bool" where
  "is_urgent s = (priority (se_summary s) = ''urgent'' \<or> sentiment (se_summary s) = ''urgent'')"

text \<open>What a stage hands to its caller: the list it returns, nothing when it throws.\<close>

definition emitted :: "error + 'a list \<Rightarrow> 'a list" where
  "emitted r = (case r of Inl e \<Rightarrow> [] | Inr out \<Rightarrow> out)"

definition returned :: "error + 'a \<Rightarrow> bool" where
  "returned r = (case r of Inl e \<Rightarrow> False | Inr out \<Rightarrow> True)"

text \<open>How many rows of the summarizer's work set carry the message identity \<open>uuid\<close>.\<close>

definition work_count :: "world \<Rightarrow> string \<Rightarrow> string \<Rightarrow> nat" where
  "work_count w sessionId uuid =
     length (filter (\<lambda>x. ml_message_uuid (jm_row x) = uuid) (messagesQuery w sessionId))"

text \<open>The messages of the session strictly before a time, in table order.\<close>

definition earlier_messages :: "world \<Rightarrow> string \<Rightarrow> int \<Rightarrow> message_row list" where
  "earlier_messages w sessionId ts =
     filter (\<lambda>ml. ml_sandbox_session_id ml = Some sessionId \<and> ml_timestamp ml < ts) (message_log w)"

text \<open>What the responder writes for a reply: the outbound row and its processing record.\<close>

definition reply_row_ok :: "string \<Rightarrow> message_row \<Rightarrow> bool" where
  "reply_row_ok sessionId m =
     (ml_from_number m = ''System'' \<and> ml_to_number m = ''Guest''
      \<and> ml_message_type m = ''Outbound'' \<and> ml_sandbox_session_id m = Some sessionId)"

definition reply_record_ok :: "string \<Rightarrow> processing_row \<Rightarrow> bool" where
  "reply_record_ok sessionId r =
     (sap_sandbox_session_id r = sessionId \<and> sap_processing_type r = ''response_generation''
      \<and> sap_processing_status r = ''completed'')"

text \<open>The summaries the responder answers.\<close>

definition actionable :: "summary_entry list \<Rightarrow> summary_entry list" where
  "actionable ss = filter (\<lambda>s. actionRequired (se_summary s)) ss"

text \<open>
  What a responder run without store fault is expected to produce. Each answered summary
  draws one string from \<open>Math.random\<close>, in order, for the identity of its reply; the reply
  is what the completion service gives, and the deterministic fallback reply when no
  capability is configured or its call fails.
\<close>

definition random_draws :: "nat \<Rightarrow> world \<Rightarrow> string list" where
  "random_draws n w = take n (randoms w @ replicate n [])"

definition reply_uuids :: "nat \<Rightarrow> world \<Rightarrow> string list" where
  "reply_uuids n w = map (\<lambda>r. ''RESP_'' @ show_int (clock w) @ ''_'' @ r) (random_draws n w)"

definition completion_reply :: "service \<Rightarrow> world \<Rightarrow> string \<Rightarrow> summary_entry \<Rightarrow> response option" where
  "completion_reply svc w sessionId s =
     (case openai svc of
        None \<Rightarrow> None
      | Some cap \<Rightarrow> response_completion cap s (getPropertyData_result w sessionId))"

definition expected_reply :: "service \<Rightarrow> world \<Rightarrow> string \<Rightarrow> summary_entry \<Rightarrow> response" where
  "expected_reply svc w sessionId s =
     (case completion_reply svc w sessionId s of
        None \<Rightarrow> getMockResponse (se_summary s)
      | Some r \<Rightarrow> r)"

definition answered :: "world \<Rightarrow> summary_entry list \<Rightarrow> (string \<times> summary_entry) list" where
  "answered w ss = zip (reply_uuids (length (actionable ss)) w) (actionable ss)"

section \<open>Example data\<close>

definition wifi_broken_message :: string where
  "wifi_broken_message = ''The wifi is broken and I can't get in, please fix''"



text \<open>One session with its property; a world is given by its message log and the
  script of the store.\<close>

definition demo_session :: session_row where
  "demo_session =
     \<lparr> ss_account_id = 1,
       ss_scenario_data = \<lparr> property_id = Some 7, guest_name = Some ''Ana'',
                            check_in_date = Some ''2025-01-10'',
                            check_out_date = Some ''2025-01-12'' \<rparr> \<rparr>"

definition demo_property :: property_row where
  "demo_property =
     \<lparr> property_title = Some ''Sea View'', property_location = Some ''1 Harbour Road'',
       check_in_time = Some ''15:00'', check_out_time = Some ''11:00'' \<rparr>"

definition inbound :: "string \<Rightarrow> int \<Rightarrow> string \<Rightarrow> message_row" where
  "inbound uuid ts body =
     \<lparr> ml_account_id = Some 1, ml_message_uuid = uuid, ml_timestamp = ts,
       ml_from_number = ''+15550100'', ml_to_number = ''System'', ml_message_body = body,
       ml_message_type = ''Inbound'', ml_requestor_role = ''guest'', ml_is_sandbox = True,
       ml_sandbox_session_id = Some ''s1'', ml_sandbox_metadata = None \<rparr>"

definition demo_world :: "message_row list \<Rightarrow> bool list \<Rightarrow> world" where
  "demo_world msgs script =
     \<lparr> sandbox_sessions = [''s1'' \<mapsto> demo_session], properties = [7 \<mapsto> demo_property],
       message_log = msgs, sandbox_ai_processing = [], sandbox_tasks = [],
       faults = script, clock = 5000, randoms = [''k3j9x0q2a'', ''p0o9i8u7y''] \<rparr>"

definition mock_service :: service where
  "mock_service = \<lparr> openai = None, model = ''gpt-4o-mini'' \<rparr>"




definition key_world :: world where
  "key_world = demo_world [inbound ''m1'' 1000 ''I lost my key''] []"

text \<open>Three inbound messages at times T1 < T2 < T3, stored out of order.\<close>

definition msg_T1 :: message_row where
  "msg_T1 = inbound ''m1'' 1000 ''Hello''"

definition msg_T2 :: message_row where
  "msg_T2 = inbound ''m2'' 2000 ''Is there parking?''"

definition msg_T3 :: message_row where
  "msg_T3 = inbound ''m3'' 3000 ''The wifi is broken''"

definition three_world :: world where
  "three_world = demo_world [msg_T2, msg_T3, msg_T1] []"

text \<open>The row of the work set for a message of the demo session.\<close>

definition joined :: "message_row \<Rightarrow> joined_message" where
  "joined ml = \<lparr> jm_row = ml, jm_scenario_data = ss_scenario_data demo_session,
                 jm_property = Some demo_property \<rparr>"

text \<open>The summaries the fallback summarizer gives for two of the bodies.\<close>

definition wifi_entry :: summary_entry where
  "wifi_entry = \<lparr> se_message_uuid = ''m3'', original_message = ''The wifi is broken'',
                   se_summary = getMockSummary ''The wifi is broken'' \<rparr>"

definition key_entry :: summary_entry where
  "key_entry = \<lparr> se_message_uuid = ''m1'', original_message = ''I lost my key'',
                  se_summary = getMockSummary ''I lost my key'' \<rparr>"


section \<open>Properties\<close>

subsection \<open>Store calls\<close>

lemma fst_client_call: "fst (client_call w) = (faults w \<noteq> [] \<and> hd (faults w))"
  by (simp add: client_call_def split: list.splits)

lemma snd_client_call: "snd (client_call w) = w\<lparr>faults := tl (faults w)\<rparr>"
  by (simp add: client_call_def split: list.splits)

subsection \<open>The fallback summarizer and responder\<close>

lemma getMockSummary_valid: "valid_summary (getMockSummary body)"
  by (simp add: getMockSummary_def valid_summary_def Let_def)

lemma getMockResponse_valid: "valid_response (getMockResponse s)"
  by (simp add: getMockResponse_def valid_response_def Let_def)

lemma getMockSummary_priority_sentiment:
  "priority (getMockSummary body) \<in> {''medium'', ''high''}
   \<and> sentiment (getMockSummary body) \<in> {''neutral'', ''negative''}"
  by (simp add: getMockSummary_def Let_def)

text \<open>The first rule wins whenever one of its keywords occurs, whatever else occurs.\<close>

lemma getMockSummary_check_in_first:
  "includes_str (toLowerCase t) ''key'' \<or> includes_str (toLowerCase t) ''check in''
     \<or> includes_str (toLowerCase t) ''access''
   \<Longrightarrow> category (getMockSummary t) = ''check-in'' \<and> priority (getMockSummary t) = ''high''
       \<and> actionRequired (getMockSummary t)"
  by (simp add: getMockSummary_def Let_def)

text \<open>
  C3, as stated: the body "The wifi is broken and I can't get in, please fix" would be
  classified \<open>check-in\<close> with priority \<open>high\<close>. It is not.
\<close>

theorem wifi_broken_not_check_in:
  "\<not> (category (getMockSummary wifi_broken_message) = ''check-in''
      \<and> priority (getMockSummary wifi_broken_message) = ''high''
      \<and> actionRequired (getMockSummary wifi_broken_message))"
  by code_simp

text \<open>
  C3, amended: the body "The wifi is broken and I can't get in, please fix" contains none
  of "key", "check in", "access", so the first rule does not apply; the fallback
  summarizer classifies it by the next rule ("wifi"/"broken"/"fix") as category
  \<open>maintenance\<close> with priority \<open>medium\<close> and \<open>actionRequired = true\<close>.
\<close>

theorem wifi_broken_is_maintenance:
  "\<not> includes_str (toLowerCase wifi_broken_message) ''key''
   \<and> \<not> includes_str (toLowerCase wifi_broken_message) ''check in''
   \<and> \<not> includes_str (toLowerCase wifi_broken_message) ''access''
   \<and> includes_str (toLowerCase wifi_broken_message) ''wifi''
   \<and> category (getMockSummary wifi_broken_message) = ''maintenance''
   \<and> priority (getMockSummary wifi_broken_message) = ''medium''
   \<and> actionRequired (getMockSummary wifi_broken_message)"
  by code_simp

text \<open>
  C6: for every message body (the empty string, text without any keyword, any other
  text), the fallback summarizer returns a summary with every field of the schema
  populated and the enumerated fields in range; for every summary, whatever its category,
  the fallback responder returns a reply with every field of its schema populated.
  Neither function has an operation that can throw on such an argument, so both are
  total functions without an error branch.
\<close>

theorem fallbacks_total_and_valid:
  "valid_summary (getMockSummary body)
   \<and> valid_response (getMockResponse s)
   \<and> valid_response (getMockResponse (getMockSummary body))
   \<and> valid_summary (getMockSummary [])"
  by (simp only: getMockSummary_valid getMockResponse_valid)

subsection \<open>The follow-up evaluator\<close>



lemma tasksQuery_faults [simp]: "tasksQuery (w\<lparr>faults := x\<rparr>) sid = tasksQuery w sid"
  by (simp add: tasksQuery_def)




subsection \<open>The escalation detector\<close>

lemma escalation_loop_eq:
  "escalation_loop ss acc = acc @ map escalation_of (filter is_urgent ss)"
  by (induction ss arbitrary: acc) (auto simp: is_urgent_def)

text \<open>
  C9: \<open>processHostEscalations\<close> returns, in the order of the summaries, exactly one
  escalation for each summary whose priority is \<open>urgent\<close> or whose sentiment is \<open>urgent\<close>
  (so also for sentiment \<open>urgent\<close> with priority \<open>low\<close>), carrying the message identity, the
  summary and the fixed reason and recommendation, and none for any other summary. It is
  a function of the summaries alone: it takes no store and returns none.
\<close>

theorem processHostEscalations_urgent:
  "processHostEscalations sid summaries = map escalation_of (filter is_urgent summaries)
   \<and> esc_summary (escalation_of s) = se_summary s
   \<and> esc_recommended_action (escalation_of s) = ''Immediate host attention required''
   \<and> is_urgent (s\<lparr>se_summary := (se_summary s)\<lparr>sentiment := ''urgent'', priority := ''low''\<rparr>\<rparr>)"
  by (simp add: processHostEscalations_def escalation_loop_eq escalation_of_def is_urgent_def)

subsection \<open>The summarizer\<close>

lemma historyQuery_upd [simp]:
  "historyQuery (w\<lparr>faults := x\<rparr>) sid ts = historyQuery w sid ts"
  "historyQuery (w\<lparr>sandbox_ai_processing := y\<rparr>) sid ts = historyQuery w sid ts"
  by (simp_all add: historyQuery_def)

lemma context_for_upd [simp]:
  "context_for (w\<lparr>faults := x\<rparr>) sid m = context_for w sid m"
  "context_for (w\<lparr>sandbox_ai_processing := y\<rparr>) sid m = context_for w sid m"
  by (simp_all add: context_for_def)

lemma summarization_record_upd [simp]:
  "summarization_record svc (w\<lparr>faults := x\<rparr>) sid m = summarization_record svc w sid m"
  "summarization_record svc (w\<lparr>sandbox_ai_processing := y\<rparr>) sid m = summarization_record svc w sid m"
  by (simp_all add: summarization_record_def)

lemma summary_entry_of_upd [simp]:
  "summary_entry_of svc (w\<lparr>faults := x\<rparr>) sid m = summary_entry_of svc w sid m"
  "summary_entry_of svc (w\<lparr>sandbox_ai_processing := y\<rparr>) sid m = summary_entry_of svc w sid m"
  by (simp_all add: summary_entry_of_def)

lemma messagesQuery_faults [simp]:
  "messagesQuery (w\<lparr>faults := x\<rparr>) sid = messagesQuery w sid"
  by (simp add: messagesQuery_def completed_summarizations_def split: option.splits)

lemma summarize_loop_ok:
  "store_ok (2 * length ms) w \<Longrightarrow>
   summarize_loop svc sid ms acc w =
     (Inr (acc @ map (summary_entry_of svc w sid) ms),
      w\<lparr>faults := drop (2 * length ms) (faults w),
        sandbox_ai_processing := sandbox_ai_processing w @ map (summarization_record svc w sid) ms\<rparr>)"
proof (induction ms arbitrary: acc w)
  case Nil
  then show ?case by simp
next
  case (Cons m ms)
  from Cons.prems have f: "\<not> fst (client_call w)" "\<not> fst (client_call (w\<lparr>faults := tl (faults w)\<rparr>))"
    and ok: "store_ok (2 * length ms) (w\<lparr>faults := tl (tl (faults w)), sandbox_ai_processing := sandbox_ai_processing w @ [summarization_record svc w sid m]\<rparr>)"
    by (cases "faults w"; cases "tl (faults w)"; simp add: store_ok_def fst_client_call)+
  show ?case
    using f Cons.IH[OF ok]
    by (simp add: snd_client_call Let_def drop_Suc tl_drop)
qed

lemma summarize_loop_any:
  "\<exists>k n. snd (summarize_loop svc sid ms acc w) =
            w\<lparr>faults := drop n (faults w),
              sandbox_ai_processing := sandbox_ai_processing w @ map (summarization_record svc w sid) (take k ms)\<rparr>
        \<and> (case fst (summarize_loop svc sid ms acc w) of
             Inl e \<Rightarrow> True
           | Inr out \<Rightarrow> take k ms = ms \<and> out = acc @ map (summary_entry_of svc w sid) ms)"
proof (induction ms arbitrary: acc w)
  case Nil
  show ?case by (rule exI[of _ 0], rule exI[of _ 0]) simp
next
  case (Cons m ms)
  show ?case
  proof (cases "fst (client_call w)")
    case True
    then show ?thesis
      by (intro exI[of _ 0] exI[of _ 1]) (simp add: snd_client_call drop_Suc)
  next
    case c1: False
    show ?thesis
    proof (cases "fst (client_call (w\<lparr>faults := tl (faults w)\<rparr>))")
      case True
      then show ?thesis using c1
        by (intro exI[of _ 0] exI[of _ 2]) (simp add: snd_client_call drop_Suc numeral_2_eq_2 Let_def)
    next
      case c2: False
      let ?W = "w\<lparr>faults := tl (tl (faults w)), sandbox_ai_processing := sandbox_ai_processing w @ [summarization_record svc w sid m]\<rparr>"
      from Cons.IH[of "acc @ [summary_entry_of svc w sid m]" ?W]
      obtain k n where
        s: "snd (summarize_loop svc sid ms (acc @ [summary_entry_of svc w sid m]) ?W) =
            ?W\<lparr>faults := drop n (faults ?W),
              sandbox_ai_processing := sandbox_ai_processing ?W @ map (summarization_record svc ?W sid) (take k ms)\<rparr>"
        and r: "(case fst (summarize_loop svc sid ms (acc @ [summary_entry_of svc w sid m]) ?W) of
             Inl e \<Rightarrow> True
           | Inr out \<Rightarrow> take k ms = ms \<and> out = (acc @ [summary_entry_of svc w sid m]) @ map (summary_entry_of svc ?W sid) ms)"
        by blast
      show ?thesis
        using c1 c2 s r
        by (intro exI[of _ "Suc k"] exI[of _ "Suc (Suc n)"])
           (simp add: snd_client_call Let_def drop_Suc tl_drop split: sum.splits)
    qed
  qed
qed

lemma processSummarizeMessages_any:
  "\<exists>k n. snd (processSummarizeMessages svc sid acct w) =
            w\<lparr>faults := drop n (faults w),
              sandbox_ai_processing := sandbox_ai_processing w
                 @ map (summarization_record svc w sid) (take k (messagesQuery w sid))\<rparr>
        \<and> (case fst (processSummarizeMessages svc sid acct w) of
             Inl e \<Rightarrow> True
           | Inr out \<Rightarrow> take k (messagesQuery w sid) = messagesQuery w sid
                        \<and> out = map (summary_entry_of svc w sid) (messagesQuery w sid))"
proof (cases "fst (client_call w)")
  case True
  then show ?thesis
    by (intro exI[of _ 0] exI[of _ 1]) (simp add: processSummarizeMessages_def snd_client_call drop_Suc)
next
  case c1: False
  show ?thesis
  proof (cases "fst (client_call (w\<lparr>faults := tl (faults w)\<rparr>))")
    case True
    then show ?thesis using c1
      by (intro exI[of _ 0] exI[of _ 2])
         (simp add: processSummarizeMessages_def snd_client_call drop_Suc numeral_2_eq_2 Let_def)
  next
    case c2: False
    let ?W = "w\<lparr>faults := tl (tl (faults w))\<rparr>"
    from summarize_loop_any[of svc sid "messagesQuery w sid" "[]" ?W]
    obtain k n where
      s: "snd (summarize_loop svc sid (messagesQuery w sid) [] ?W) =
            ?W\<lparr>faults := drop n (faults ?W),
              sandbox_ai_processing := sandbox_ai_processing ?W
                 @ map (summarization_record svc ?W sid) (take k (messagesQuery w sid))\<rparr>"
      and r: "(case fst (summarize_loop svc sid (messagesQuery w sid) [] ?W) of
             Inl e \<Rightarrow> True
           | Inr out \<Rightarrow> take k (messagesQuery w sid) = messagesQuery w sid
                \<and> out = [] @ map (summary_entry_of svc ?W sid) (messagesQuery w sid))"
      by blast
    show ?thesis
      using c1 c2 s r
      by (intro exI[of _ k] exI[of _ "Suc (Suc n)"])
         (simp add: processSummarizeMessages_def snd_client_call Let_def drop_Suc tl_drop
            split: sum.splits)
  qed
qed

lemma completed_summarizations_append:
  "completed_summarizations
      (w\<lparr>faults := a, sandbox_ai_processing := sandbox_ai_processing w @ map (summarization_record svc w0 sid) xs\<rparr>) sid u
   = completed_summarizations w sid u
       @ map (summarization_record svc w0 sid) (filter (\<lambda>x. ml_message_uuid (jm_row x) = u) xs)"
  by (simp add: completed_summarizations_def filter_map comp_def summarization_record_def)

lemma messagesQuery_after:
  "messagesQuery
      (w\<lparr>faults := a, sandbox_ai_processing := sandbox_ai_processing w @ map (summarization_record svc w0 sid) xs\<rparr>) sid
   = filter (\<lambda>x. ml_message_uuid (jm_row x) \<notin> (\<lambda>x. ml_message_uuid (jm_row x)) ` set xs) (messagesQuery w sid)"
proof (cases "sandbox_sessions w sid")
  case None
  then show ?thesis by (simp add: messagesQuery_def)
next
  case (Some ss)
  have e: "(completed_summarizations
      (w\<lparr>faults := a, sandbox_ai_processing := sandbox_ai_processing w @ map (summarization_record svc w0 sid) xs\<rparr>) sid v = [])
      = (completed_summarizations w sid v = [] \<and> v \<notin> (\<lambda>x. ml_message_uuid (jm_row x)) ` set xs)" for v
    by (auto simp: completed_summarizations_append filter_empty_conv)
  show ?thesis
    unfolding messagesQuery_def
    by (simp add: Some e filter_map comp_def filter_sort conj_ac split: option.splits cong: filter_cong)
qed


lemma work_count_done:
  "completed_summarizations w sid u \<noteq> [] \<Longrightarrow> work_count w sid u = 0"
  by (auto simp: work_count_def messagesQuery_def filter_empty_conv split: option.splits)

lemma count_take_le:
  "length (filter P (take k xs)) \<le> length (filter P xs)"
proof -
  have "length (filter P xs) = length (filter P (take k xs)) + length (filter P (drop k xs))"
    by (metis append_take_drop_id filter_append length_append)
  then show ?thesis by simp
qed


lemma uuid_entry [simp]: "se_message_uuid (summary_entry_of svc w sid m) = ml_message_uuid (jm_row m)"
  by (simp add: summary_entry_of_def)

text \<open>
  C2: take a message identity that occurs once in the work set of
  \<open>processSummarizeMessages\<close> for the session (an unprocessed inbound message), and run the
  stage twice in sequence, whatever the store lets each run do. After both runs there is
  at most one \<open>completed\<close> record of type \<open>summarization\<close> for the message, and at most one
  summary was emitted for it across both runs. If either run returns, there is exactly
  one such record. If the first run returns, it emitted the one summary and inserted the
  one record; the message is then excluded from the second run's work set, the second
  run inserts no record for it and emits no summary for it.
\<close>

theorem summarize_twice_idempotent:
  assumes once: "work_count w sid u = 1"
      and run1: "processSummarizeMessages svc sid acct w = (r1, w1)"
      and run2: "processSummarizeMessages svc sid acct w1 = (r2, w2)"
  shows "length (completed_summarizations w2 sid u) \<le> 1
       \<and> length (filter (\<lambda>e. se_message_uuid e = u) (emitted r1 @ emitted r2)) \<le> 1
       \<and> (returned r1 \<or> returned r2 \<longrightarrow> length (completed_summarizations w2 sid u) = 1)
       \<and> (returned r1 \<longrightarrow>
            length (completed_summarizations w1 sid u) = 1
            \<and> work_count w1 sid u = 0
            \<and> completed_summarizations w2 sid u = completed_summarizations w1 sid u
            \<and> length (filter (\<lambda>e. se_message_uuid e = u) (emitted r1)) = 1
            \<and> filter (\<lambda>e. se_message_uuid e = u) (emitted r2) = [])"
proof -
  let ?P = "\<lambda>x. ml_message_uuid (jm_row x) = u"
  let ?ms = "messagesQuery w sid"
  let ?ms1 = "messagesQuery w1 sid"
  from processSummarizeMessages_any[of svc sid acct w] run1 obtain k n where
    w1: "w1 = w\<lparr>faults := drop n (faults w),
              sandbox_ai_processing := sandbox_ai_processing w
                 @ map (summarization_record svc w sid) (take k ?ms)\<rparr>"
    and r1: "(case r1 of Inl e \<Rightarrow> True
           | Inr out \<Rightarrow> take k ?ms = ?ms \<and> out = map (summary_entry_of svc w sid) ?ms)"
    by auto
  from processSummarizeMessages_any[of svc sid acct w1] run2 obtain k' n' where
    w2: "w2 = w1\<lparr>faults := drop n' (faults w1),
              sandbox_ai_processing := sandbox_ai_processing w1
                 @ map (summarization_record svc w1 sid) (take k' ?ms1)\<rparr>"
    and r2: "(case r2 of Inl e \<Rightarrow> True
           | Inr out \<Rightarrow> take k' ?ms1 = ?ms1 \<and> out = map (summary_entry_of svc w1 sid) ?ms1)"
    by auto
  define a where "a = length (filter ?P (take k ?ms))"
  define b where "b = length (filter ?P (take k' ?ms1))"
  define U where "U = (\<lambda>x. ml_message_uuid (jm_row x)) ` set (take k ?ms)"
  have one: "length (filter ?P ?ms) = 1"
    using once by (simp add: work_count_def)
  have c0: "completed_summarizations w sid u = []"
    using once work_count_done[of w sid u] by auto
  have c1: "completed_summarizations w1 sid u
              = map (summarization_record svc w sid) (filter ?P (take k ?ms))"
    by (subst w1) (simp add: completed_summarizations_append c0)
  have q1: "?ms1 = filter (\<lambda>x. ml_message_uuid (jm_row x) \<notin> U) ?ms"
    unfolding U_def by (subst w1) (simp add: messagesQuery_after)
  have c2: "completed_summarizations w2 sid u
              = completed_summarizations w1 sid u
                  @ map (summarization_record svc w1 sid) (filter ?P (take k' ?ms1))"
    by (subst w2) (simp add: completed_summarizations_append)
  have a_le: "a \<le> 1"
    unfolding a_def using count_take_le[of ?P k ?ms] one by simp
  have a_U: "(a = 0) = (u \<notin> U)"
    unfolding a_def U_def by (auto simp: filter_empty_conv)
  have wc1: "length (filter ?P ?ms1) = (if u \<in> U then 0 else 1)"
  proof (cases "u \<in> U")
    case True
    then have "filter ?P ?ms1 = []"
      unfolding q1 by (auto simp: filter_empty_conv)
    with True show ?thesis by simp
  next
    case False
    then have "filter ?P ?ms1 = filter ?P ?ms"
      unfolding q1 filter_filter by (intro filter_cong) auto
    with False one show ?thesis by simp
  qed
  have b_le: "b \<le> length (filter ?P ?ms1)"
    unfolding b_def by (rule count_take_le)
  have len2: "length (completed_summarizations w2 sid u) = a + b"
    by (simp add: c2 c1 a_def b_def)
  have len1: "length (completed_summarizations w1 sid u) = a"
    by (simp add: c1 a_def)
  have ret1: "returned r1 \<Longrightarrow> a = 1 \<and> emitted r1 = map (summary_entry_of svc w sid) ?ms"
    using r1 one by (auto simp: returned_def emitted_def a_def split: sum.splits)
  have nret1: "\<not> returned r1 \<Longrightarrow> emitted r1 = []"
    by (auto simp: returned_def emitted_def split: sum.splits)
  have ret2: "returned r2 \<Longrightarrow> b = length (filter ?P ?ms1) \<and> emitted r2 = map (summary_entry_of svc w1 sid) ?ms1"
    using r2 by (auto simp: returned_def emitted_def b_def split: sum.splits)
  have nret2: "\<not> returned r2 \<Longrightarrow> emitted r2 = []"
    by (auto simp: returned_def emitted_def split: sum.splits)
  have em1: "length (filter (\<lambda>e. se_message_uuid e = u) (emitted r1)) = (if returned r1 then 1 else 0)"
    using ret1 nret1 one by (auto simp: filter_map comp_def)
  have em2: "length (filter (\<lambda>e. se_message_uuid e = u) (emitted r2))
               = (if returned r2 then (if u \<in> U then 0 else 1) else 0)"
    using ret2 nret2 wc1 by (auto simp: filter_map comp_def)
  have g1: "length (completed_summarizations w2 sid u) \<le> 1"
    using len2 a_le a_U b_le wc1 by (cases "u \<in> U") auto
  have g2: "length (filter (\<lambda>e. se_message_uuid e = u) (emitted r1 @ emitted r2)) \<le> 1"
    using em1 em2 ret1 a_U by (cases "returned r1"; cases "u \<in> U") auto
  have g3: "returned r1 \<or> returned r2 \<longrightarrow> length (completed_summarizations w2 sid u) = 1"
    using len2 a_le a_U b_le wc1 ret1 ret2 by (cases "u \<in> U") auto
  have g4: "returned r1 \<longrightarrow>
            length (completed_summarizations w1 sid u) = 1
            \<and> work_count w1 sid u = 0
            \<and> completed_summarizations w2 sid u = completed_summarizations w1 sid u
            \<and> length (filter (\<lambda>e. se_message_uuid e = u) (emitted r1)) = 1
            \<and> filter (\<lambda>e. se_message_uuid e = u) (emitted r2) = []"
  proof
    assume ret: "returned r1"
    with ret1 a_U have inU: "u \<in> U" and a1: "a = 1" by auto
    from inU wc1 have z: "filter ?P ?ms1 = []" by simp
    then have b0: "filter ?P (take k' ?ms1) = []"
      using count_take_le[of ?P k' ?ms1] by simp
    have "filter (\<lambda>e. se_message_uuid e = u) (emitted r2) = []"
      using em2 inU by (cases "returned r2") auto
    then show "length (completed_summarizations w1 sid u) = 1
            \<and> work_count w1 sid u = 0
            \<and> completed_summarizations w2 sid u = completed_summarizations w1 sid u
            \<and> length (filter (\<lambda>e. se_message_uuid e = u) (emitted r1)) = 1
            \<and> filter (\<lambda>e. se_message_uuid e = u) (emitted r2) = []"
      using len1 a1 z b0 c2 em1 ret by (simp add: work_count_def)
  qed
  from g1 g2 g3 g4 show ?thesis by blast
qed

theorem summarize_twice_idempotent_witness:
  "work_count key_world ''s1'' ''m1'' = 1
   \<and> returned (fst (processSummarizeMessages mock_service ''s1'' 1 key_world))
   \<and> length (completed_summarizations
        (snd (processSummarizeMessages mock_service ''s1'' 1
           (snd (processSummarizeMessages mock_service ''s1'' 1 key_world)))) ''s1'' ''m1'') = 1"
proof -
  have a: "work_count key_world ''s1'' ''m1'' = 1" by code_simp
  have b: "returned (fst (processSummarizeMessages mock_service ''s1'' 1 key_world))" by code_simp
  show ?thesis
    using a b summarize_twice_idempotent
              [where svc = mock_service and acct = 1, OF a surjective_pairing surjective_pairing]
    by simp
qed


subsection \<open>The history of a context\<close>

lemma map_insort_key: "map f (insort_key f x xs) = insort (f x) (map f xs)"
  by (induction xs) simp_all

lemma map_sort_key: "map f (sort_key f xs) = sort (map f xs)"
  by (induction xs) (simp_all add: map_insort_key)

lemma history_def2:
  "conversationHistory (context_for w sid m)
     = map history_entry_of
         (take 10 (rev (sort_key ml_timestamp (earlier_messages w sid (ml_timestamp (jm_row m))))))"
  by (simp add: context_for_def buildMessageContext_def historyQuery_def earlier_messages_def Let_def)

lemma h_timestamp_entry: "h_timestamp \<circ> history_entry_of = ml_timestamp"
  by (rule ext) (simp add: history_entry_of_def)

lemma hist_ts: "map h_timestamp (conversationHistory (context_for w sid m))
   = take 10 (rev (sort (map ml_timestamp (earlier_messages w sid (ml_timestamp (jm_row m))))))"
  by (simp add: history_def2 h_timestamp_entry take_map rev_map map_sort_key[symmetric])

lemma history_subset:
  "set (conversationHistory (context_for w sid m))
     \<subseteq> history_entry_of ` set (earlier_messages w sid (ml_timestamp (jm_row m)))"
proof -
  have "set (take 10 (rev (sort_key ml_timestamp (earlier_messages w sid (ml_timestamp (jm_row m))))))
          \<subseteq> set (earlier_messages w sid (ml_timestamp (jm_row m)))"
    using set_take_subset[of 10 "rev (sort_key ml_timestamp (earlier_messages w sid (ml_timestamp (jm_row m))))"]
    by simp
  then show ?thesis unfolding history_def2 by auto
qed

lemma hist_all:
  "length (earlier_messages w sid (ml_timestamp (jm_row m))) \<le> 10 \<Longrightarrow>
   set (conversationHistory (context_for w sid m))
     = history_entry_of ` set (earlier_messages w sid (ml_timestamp (jm_row m)))"
  by (simp add: history_def2)

lemma hist_length:
  "length (conversationHistory (context_for w sid m))
     = min 10 (length (earlier_messages w sid (ml_timestamp (jm_row m))))"
  by (simp add: history_def2 min.commute)

lemma hist_earlier:
  "h \<in> set (conversationHistory (context_for w sid m)) \<Longrightarrow> h_timestamp h < ml_timestamp (jm_row m)"
  using history_subset[of w sid m] by (auto simp: earlier_messages_def history_entry_of_def)

lemma hist_desc: "sorted (rev (map h_timestamp (conversationHistory (context_for w sid m))))"
proof -
  have "sorted (drop k (sort xs))" for k and xs :: "int list"
    by simp
  then show ?thesis
    unfolding hist_ts by (simp add: rev_take)
qed

lemma sorted_work: "sorted (map (\<lambda>x. ml_timestamp (jm_row x)) (messagesQuery w sid))"
  by (simp add: messagesQuery_def comp_def split: option.splits)

lemma run_returns:
  "processSummarizeMessages svc sid acct w = (Inr summaries, w') \<Longrightarrow>
     summaries = map (summary_entry_of svc w sid) (messagesQuery w sid)
   \<and> sandbox_ai_processing w' = sandbox_ai_processing w
          @ map (summarization_record svc w sid) (messagesQuery w sid)
   \<and> message_log w' = message_log w"
  using processSummarizeMessages_any[of svc sid acct w] by auto

lemma fallback_entry_not_urgent:
  "openai svc = None \<Longrightarrow> \<not> is_urgent (summary_entry_of svc w sid m)"
  using getMockSummary_priority_sentiment[of "ml_message_body (jm_row m)"]
  by (auto simp: is_urgent_def summary_entry_of_def generateMessageSummary_def)

text \<open>
  C4, as stated: the context built for the message at T3 would present T1 and T2 in
  chronological order, the descending fetch being reversed. With messages at
  1000 < 2000 < 3000 the history of the third is the second, then the first.
\<close>

theorem history_not_chronological:
  "messagesQuery three_world ''s1'' ! 2 = joined msg_T3
   \<and> conversationHistory (context_for three_world ''s1'' (joined msg_T3))
        = [history_entry_of msg_T2, history_entry_of msg_T1]
   \<and> conversationHistory (context_for three_world ''s1'' (joined msg_T3))
        \<noteq> [history_entry_of msg_T1, history_entry_of msg_T2]"
  by code_simp

text \<open>
  C4, amended: the summarizer's work set is in ascending timestamp order, and a run that
  returns has emitted the summaries and appended the processing records in exactly that
  order. The record of a message stores the context built for it, and the history of that
  context consists of the up-to-10 most recent messages of the session that are strictly
  earlier than the message (all of them when there are at most 10; never a later one),
  presented most recent first, in the descending order of the fetch:
  \<open>buildMessageContext\<close> does not reverse it.
\<close>

theorem summarizer_order_and_history:
  "sorted (map (\<lambda>x. ml_timestamp (jm_row x)) (messagesQuery w sid))
   \<and> (processSummarizeMessages svc sid acct w = (Inr summaries, w2) \<longrightarrow>
         summaries = map (summary_entry_of svc w sid) (messagesQuery w sid)
         \<and> sandbox_ai_processing w2 = sandbox_ai_processing w
              @ map (summarization_record svc w sid) (messagesQuery w sid))
   \<and> sap_input_data (summarization_record svc w sid m)
        = SummarizationInput (ml_message_body (jm_row m)) (context_for w sid m)
   \<and> conversationHistory (context_for w sid m)
        = map history_entry_of
            (take 10 (rev (sort_key ml_timestamp
                             (earlier_messages w sid (ml_timestamp (jm_row m))))))
   \<and> set (conversationHistory (context_for w sid m))
        \<subseteq> history_entry_of ` set (earlier_messages w sid (ml_timestamp (jm_row m)))
   \<and> (length (earlier_messages w sid (ml_timestamp (jm_row m))) \<le> 10 \<longrightarrow>
         set (conversationHistory (context_for w sid m))
           = history_entry_of ` set (earlier_messages w sid (ml_timestamp (jm_row m))))
   \<and> length (conversationHistory (context_for w sid m))
        = min 10 (length (earlier_messages w sid (ml_timestamp (jm_row m))))
   \<and> map h_timestamp (conversationHistory (context_for w sid m))
        = take 10 (rev (sort (map ml_timestamp
                                (earlier_messages w sid (ml_timestamp (jm_row m))))))
   \<and> sorted (rev (map h_timestamp (conversationHistory (context_for w sid m))))"
  using sorted_work[of w sid] run_returns[of svc sid acct w summaries w2]
    history_def2[of w sid m] history_subset[of w sid m] hist_all[of w sid m]
    hist_length[of w sid m] hist_ts[of w sid m] hist_desc[of w sid m]
  by (simp add: summarization_record_def)

theorem summarizer_order_and_history_witness:
  "processSummarizeMessages mock_service ''s1'' 1 three_world
     = (Inr (emitted (fst (processSummarizeMessages mock_service ''s1'' 1 three_world))),
        snd (processSummarizeMessages mock_service ''s1'' 1 three_world))
   \<and> length (earlier_messages three_world ''s1'' (ml_timestamp (jm_row (joined msg_T3)))) \<le> 10
   \<and> map se_message_uuid (emitted (fst (processSummarizeMessages mock_service ''s1'' 1 three_world)))
        = [''m1'', ''m2'', ''m3'']
   \<and> map h_timestamp (conversationHistory (context_for three_world ''s1'' (joined msg_T3)))
        = [2000, 1000]"
proof -
  let ?run = "processSummarizeMessages mock_service ''s1'' 1 three_world"
  have r: "returned (fst ?run)" by code_simp
  have a: "?run = (Inr (emitted (fst ?run)), snd ?run)"
    using r by (cases "fst ?run") (auto simp: returned_def emitted_def prod_eq_iff)
  have b: "length (earlier_messages three_world ''s1'' (ml_timestamp (jm_row (joined msg_T3)))) \<le> 10"
    by code_simp
  have q: "map (\<lambda>x. ml_message_uuid (jm_row x)) (messagesQuery three_world ''s1'')
             = [''m1'', ''m2'', ''m3'']"
    by code_simp
  have h: "take 10 (rev (sort (map ml_timestamp
             (earlier_messages three_world ''s1'' (ml_timestamp (jm_row (joined msg_T3)))))))
             = [2000, 1000]"
    by code_simp
  note t = summarizer_order_and_history
             [where w = three_world and sid = "''s1''" and svc = mock_service and acct = 1
                and summaries = "emitted (fst ?run)" and ?w2.0 = "snd ?run" and m = "joined msg_T3"]
  from t a have s: "emitted (fst ?run)
                      = map (summary_entry_of mock_service three_world ''s1'')
                          (messagesQuery three_world ''s1'')"
    by blast
  have u: "map se_message_uuid (emitted (fst ?run)) = [''m1'', ''m2'', ''m3'']"
    by (subst s) (simp add: comp_def q)
  from t have hh0: "map h_timestamp (conversationHistory (context_for three_world ''s1'' (joined msg_T3)))
                     = take 10 (rev (sort (map ml_timestamp
                         (earlier_messages three_world ''s1'' (ml_timestamp (jm_row (joined msg_T3)))))))"
    by blast
  have hh: "map h_timestamp (conversationHistory (context_for three_world ''s1'' (joined msg_T3)))
              = [2000, 1000]"
    by (simp only: hh0 h)
  from a b u hh show ?thesis by blast
qed

subsection \<open>The fallback path and escalations\<close>

lemma key_entry_actionable: "actionRequired (se_summary key_entry)"
  by code_simp

lemma wifi_entry_actionable: "actionRequired (se_summary wifi_entry)"
  by code_simp

lemma key_summaries:
  "fst (processSummarizeMessages mock_service ''s1'' 1 key_world) = Inr [key_entry]"
  by code_simp

lemma key_after:
  "message_log (snd (processSummarizeMessages mock_service ''s1'' 1 key_world))
     = [inbound ''m1'' 1000 ''I lost my key'']
   \<and> faults (snd (processSummarizeMessages mock_service ''s1'' 1 key_world)) = []"
  by code_simp

lemma fallback_summaries_not_urgent:
  "openai svc = None \<Longrightarrow> processSummarizeMessages svc sid acct w = (Inr summaries, w2)
     \<Longrightarrow> processHostEscalations sid summaries = []"
  using run_returns[of svc sid acct w summaries w2]
  by (auto simp: processHostEscalations_def escalation_loop_eq filter_empty_conv
        fallback_entry_not_urgent)

lemma run_no_escalation:
  "openai svc = None \<Longrightarrow> runFullAutomation svc sid acct w = (Inr res, w5)
     \<Longrightarrow> pr_escalations res = []"
  by (auto simp: runFullAutomation_def fallback_summaries_not_urgent
       split: prod.splits sum.splits)

text \<open>
  C10: for every message body the fallback summarizer gives a priority in
  \<open>{medium, high}\<close> and a sentiment in \<open>{neutral, negative}\<close>, never \<open>urgent\<close>; so when no
  completion capability is configured, the escalation detector emits no escalation for
  the summaries that a run of the summarizer returns, and a run of the whole pipeline
  that returns reports no escalation.
\<close>

theorem fallback_never_escalates:
  "priority (getMockSummary body) \<in> {''medium'', ''high''}
   \<and> sentiment (getMockSummary body) \<in> {''neutral'', ''negative''}
   \<and> priority (getMockSummary body) \<noteq> ''urgent''
   \<and> sentiment (getMockSummary body) \<noteq> ''urgent''
   \<and> (openai svc = None \<and> processSummarizeMessages svc sid acct w = (Inr summaries, w2)
        \<longrightarrow> processHostEscalations sid summaries = [])
   \<and> (openai svc = None \<and> runFullAutomation svc sid acct w = (Inr res, w5)
        \<longrightarrow> pr_escalations res = [])"
  using getMockSummary_priority_sentiment[of body]
    fallback_summaries_not_urgent[of svc sid acct w summaries w2]
    run_no_escalation[of svc sid acct w res w5]
  by auto

theorem fallback_never_escalates_witness:
  "openai mock_service = None
   \<and> processSummarizeMessages mock_service ''s1'' 1 key_world
        = (Inr [key_entry], snd (processSummarizeMessages mock_service ''s1'' 1 key_world))
   \<and> processHostEscalations ''s1'' [key_entry] = []
   \<and> runFullAutomation mock_service ''s1'' 1 key_world
        = (Inr (projr (fst (runFullAutomation mock_service ''s1'' 1 key_world))),
           snd (runFullAutomation mock_service ''s1'' 1 key_world))
   \<and> pr_escalations (projr (fst (runFullAutomation mock_service ''s1'' 1 key_world))) = []"
proof -
  let ?run = "runFullAutomation mock_service ''s1'' 1 key_world"
  have o: "openai mock_service = None" by (simp add: mock_service_def)
  have a: "processSummarizeMessages mock_service ''s1'' 1 key_world
             = (Inr [key_entry], snd (processSummarizeMessages mock_service ''s1'' 1 key_world))"
    using key_summaries by (simp add: prod_eq_iff)
  have r: "returned (fst ?run)" by code_simp
  have b: "?run = (Inr (projr (fst ?run)), snd ?run)"
    using r by (cases "fst ?run") (auto simp: returned_def prod_eq_iff)
  note t = fallback_never_escalates
         [where svc = mock_service and sid = "''s1''" and acct = 1 and w = key_world
            and summaries = "[key_entry]"
            and ?w2.0 = "snd (processSummarizeMessages mock_service ''s1'' 1 key_world)"
            and res = "projr (fst ?run)" and ?w5.0 = "snd ?run"]
  from t o a have c: "processHostEscalations ''s1'' [key_entry] = []" by blast
  from t o b have d: "pr_escalations (projr (fst ?run)) = []" by blast
  from o a c b d show ?thesis by blast
qed

subsection \<open>The responder\<close>

lemma faults_Math_random [simp]: "faults (snd (Math_random w)) = faults w"
  by (simp add: Math_random_def split: list.splits)


lemma snd_Math_random: "snd (Math_random w) = w\<lparr>randoms := tl (randoms w)\<rparr>"
  by (simp add: Math_random_def split: list.splits)

lemma getPropertyData_result_upd [simp]:
  "getPropertyData_result (w\<lparr>faults := x\<rparr>) sid = getPropertyData_result w sid"
  by (simp add: getPropertyData_result_def split: option.splits)

lemma response_uuid_upd [simp]:
  "response_uuid (w\<lparr>faults := x\<rparr>) = response_uuid w"
  by (simp add: response_uuid_def Math_random_def split: list.splits)

lemma outbound_message_upd [simp]:
  "outbound_message (w\<lparr>faults := x\<rparr>) sid u s r = outbound_message w sid u s r"
  "outbound_message (w\<lparr>randoms := y\<rparr>) sid u s r = outbound_message w sid u s r"
  by (simp_all add: outbound_message_def)

lemma respond_step_fails:
  assumes "actionRequired (se_summary s)" and "\<not> store_ok 3 w"
  shows "\<exists>w'. respond_loop svc sid (s # post) acc w = (Inl StoreError, w')
            \<and> sandbox_ai_processing w' = sandbox_ai_processing w
            \<and> (message_log w' = message_log w
                \<or> message_log w' = message_log w
                     @ [outbound_message w sid (response_uuid w) s
                          (generateAiResponse svc s (getPropertyData_result w sid))])"
  using assms
  by (cases "faults w"; cases "tl (faults w)"; cases "tl (tl (faults w))")
     (auto simp: store_ok_def fst_client_call snd_client_call snd_Math_random Let_def)

lemma respond_step_ok:
  assumes "actionRequired (se_summary s)" and "store_ok 3 w"
  shows "respond_loop svc sid (s # ss) acc w =
           respond_loop svc sid ss
             (acc @ [\<lparr> re_message_uuid = response_uuid w,
                        re_response = message (generateAiResponse svc s (getPropertyData_result w sid)),
                        re_metadata = generateAiResponse svc s (getPropertyData_result w sid) \<rparr>])
             (w\<lparr>randoms := tl (randoms w),
                message_log := message_log w
                  @ [outbound_message w sid (response_uuid w) s
                       (generateAiResponse svc s (getPropertyData_result w sid))],
                faults := tl (tl (tl (faults w))),
                sandbox_ai_processing := sandbox_ai_processing w
                  @ [response_record svc w sid (response_uuid w) s
                       (generateAiResponse svc s (getPropertyData_result w sid))]\<rparr>)"
  using assms
  by (cases "faults w"; cases "tl (faults w)"; cases "tl (tl (faults w))")
     (simp_all add: store_ok_def fst_client_call snd_client_call snd_Math_random Let_def
        response_record_def)

lemma respond_loop_effect:
  "\<exists>msgs recs.
      message_log (snd (respond_loop svc sid ss acc w)) = message_log w @ msgs
    \<and> sandbox_ai_processing (snd (respond_loop svc sid ss acc w)) = sandbox_ai_processing w @ recs
    \<and> list_all (reply_row_ok sid) msgs
    \<and> list_all (reply_record_ok sid) recs
    \<and> (case fst (respond_loop svc sid ss acc w) of
          Inl e \<Rightarrow> True
        | Inr out \<Rightarrow>
            (\<exists>new. out = acc @ new
               \<and> map re_message_uuid new = map ml_message_uuid msgs
               \<and> map re_response new = map ml_message_body msgs
               \<and> map sap_message_uuid recs = map ml_message_uuid msgs
               \<and> map (\<lambda>m. map_option generated_from (ml_sandbox_metadata m)) msgs
                    = map (\<lambda>s. Some (se_message_uuid s)) (filter (\<lambda>s. actionRequired (se_summary s)) ss)))"
proof (induction ss arbitrary: acc w)
  case Nil
  show ?case by (intro exI[of _ "[]"]) simp
next
  case (Cons s ss)
  show ?case
  proof (cases "actionRequired (se_summary s)")
    case False
    have "respond_loop svc sid (s # ss) acc w = respond_loop svc sid ss acc w"
      "filter (\<lambda>s. actionRequired (se_summary s)) (s # ss) = filter (\<lambda>s. actionRequired (se_summary s)) ss"
      using False by simp_all
    then show ?thesis using Cons.IH[of acc w] by (simp only:)
  next
    case act: True
    let ?w1 = "w\<lparr>faults := tl (faults w)\<rparr>"
    let ?r = "generateAiResponse svc s (getPropertyData_result w sid)"
    let ?u = "response_uuid w"
    let ?w2 = "?w1\<lparr>randoms := tl (randoms w)\<rparr>"
    let ?w3 = "?w2\<lparr>faults := tl (tl (faults w))\<rparr>"
    let ?m = "outbound_message w sid ?u s ?r"
    let ?w4 = "?w3\<lparr>message_log := message_log w @ [?m]\<rparr>"
    let ?w5 = "?w4\<lparr>faults := tl (tl (tl (faults w)))\<rparr>"
    let ?rec = "response_record svc w sid ?u s ?r"
    let ?W = "?w5\<lparr>sandbox_ai_processing := sandbox_ai_processing w @ [?rec]\<rparr>"
    let ?e = "\<lparr> re_message_uuid = ?u, re_response = message ?r, re_metadata = ?r \<rparr>"
    show ?thesis
    proof (cases "store_ok 3 w")
      case False
      from respond_step_fails[OF act False, of svc sid ss acc] obtain w' where
        f: "respond_loop svc sid (s # ss) acc w = (Inl StoreError, w')"
        and t: "sandbox_ai_processing w' = sandbox_ai_processing w"
           "message_log w' = message_log w
                \<or> message_log w' = message_log w @ [?m]"
        by blast
      have ok: "reply_row_ok sid ?m"
        by (simp add: reply_row_ok_def outbound_message_def from_number_of_def or_default_def)
      from t(2) show ?thesis
      proof
        assume "message_log w' = message_log w"
        then show ?thesis using f t(1) by (intro exI[of _ "[]"]) simp
      next
        assume "message_log w' = message_log w @ [?m]"
        then show ?thesis using f t(1) ok
          by (intro exI[of _ "[?m]"] exI[of _ "[]"]) simp
      qed
    next
      case True
      then have c: "\<not> fst (client_call w)" "\<not> fst (client_call ?w2)" "\<not> fst (client_call ?w4)"
        by (cases "faults w"; cases "tl (faults w)"; cases "tl (tl (faults w))";
            simp add: store_ok_def fst_client_call)+
      have step: "respond_loop svc sid (s # ss) acc w = respond_loop svc sid ss (acc @ [?e]) ?W"
        using act c
        by (simp add: snd_client_call snd_Math_random Let_def response_record_def)
      from Cons.IH[of "acc @ [?e]" ?W] obtain msgs recs where
        ih: "message_log (snd (respond_loop svc sid ss (acc @ [?e]) ?W)) = message_log ?W @ msgs"
            "sandbox_ai_processing (snd (respond_loop svc sid ss (acc @ [?e]) ?W)) = sandbox_ai_processing ?W @ recs"
            "list_all (reply_row_ok sid) msgs"
            "list_all (reply_record_ok sid) recs"
            "(case fst (respond_loop svc sid ss (acc @ [?e]) ?W) of
                Inl e \<Rightarrow> True
              | Inr out \<Rightarrow>
                  (\<exists>new. out = (acc @ [?e]) @ new
                     \<and> map re_message_uuid new = map ml_message_uuid msgs
                     \<and> map re_response new = map ml_message_body msgs
                     \<and> map sap_message_uuid recs = map ml_message_uuid msgs
                     \<and> map (\<lambda>m. map_option generated_from (ml_sandbox_metadata m)) msgs
                          = map (\<lambda>s. Some (se_message_uuid s)) (filter (\<lambda>s. actionRequired (se_summary s)) ss)))"
        by blast
      have okm: "reply_row_ok sid ?m"
        by (simp add: reply_row_ok_def outbound_message_def from_number_of_def or_default_def)
      have okr: "reply_record_ok sid ?rec"
        by (simp add: reply_record_ok_def response_record_def)
      have um: "ml_message_uuid ?m = ?u" "ml_message_body ?m = message ?r"
          "map_option generated_from (ml_sandbox_metadata ?m) = Some (se_message_uuid s)"
          "sap_message_uuid ?rec = ?u"
        by (simp_all add: outbound_message_def response_record_def)
      show ?thesis
      proof (cases "fst (respond_loop svc sid ss (acc @ [?e]) ?W)")
        case (Inl e)
        then show ?thesis
          unfolding step using ih(1-4) okm okr
          by (intro exI[of _ "?m # msgs"] exI[of _ "?rec # recs"]) simp
      next
        case (Inr out)
        with ih(5) obtain new where
          n: "out = (acc @ [?e]) @ new"
             "map re_message_uuid new = map ml_message_uuid msgs"
             "map re_response new = map ml_message_body msgs"
             "map sap_message_uuid recs = map ml_message_uuid msgs"
             "map (\<lambda>m. map_option generated_from (ml_sandbox_metadata m)) msgs
                = map (\<lambda>s. Some (se_message_uuid s)) (filter (\<lambda>s. actionRequired (se_summary s)) ss)"
          by auto
        have "\<exists>new'. out = acc @ new'
               \<and> map re_message_uuid new' = map ml_message_uuid (?m # msgs)
               \<and> map re_response new' = map ml_message_body (?m # msgs)
               \<and> map sap_message_uuid (?rec # recs) = map ml_message_uuid (?m # msgs)
               \<and> map (\<lambda>m. map_option generated_from (ml_sandbox_metadata m)) (?m # msgs)
                    = map (\<lambda>s. Some (se_message_uuid s)) (filter (\<lambda>s. actionRequired (se_summary s)) (s # ss))"
          using n um act by (intro exI[of _ "?e # new"]) simp
        then show ?thesis
          unfolding step using Inr ih(1-4) okm okr
          by (intro exI[of _ "?m # msgs"] exI[of _ "?rec # recs"]) simp
      qed
    qed
  qed
qed


lemma store_ok_split:
  "store_ok (3 + k) w \<Longrightarrow>
     store_ok 3 w \<and> store_ok k (w\<lparr>faults := tl (tl (tl (faults w)))\<rparr>)"
proof -
  assume a: "store_ok (3 + k) w"
  have "take (3 + k) (faults w) = take 3 (faults w) @ take k (drop 3 (faults w))"
    by (simp add: take_add)
  moreover have "drop 3 (faults w) = tl (tl (tl (faults w)))"
    by (simp add: numeral_3_eq_3 drop_Suc)
  ultimately show ?thesis using a by (simp add: store_ok_def)
qed

lemma respond_loop_returns:
  "store_ok (3 * length (filter (\<lambda>s. actionRequired (se_summary s)) ss)) w \<Longrightarrow>
   returned (fst (respond_loop svc sid ss acc w))"
proof (induction ss arbitrary: acc w)
  case Nil
  show ?case by (simp add: returned_def)
next
  case (Cons s ss)
  show ?case
  proof (cases "actionRequired (se_summary s)")
    case False
    then show ?thesis using Cons by simp
  next
    case act: True
    let ?n = "length (filter (\<lambda>s. actionRequired (se_summary s)) ss)"
    from Cons.prems act have "store_ok (3 + 3 * ?n) w" by simp
    from store_ok_split[OF this] have ok3: "store_ok 3 w"
      and okn: "store_ok (3 * ?n) (w\<lparr>faults := tl (tl (tl (faults w)))\<rparr>)" by auto
    show ?thesis
      unfolding respond_step_ok[OF act ok3]
      by (rule Cons.IH) (use okn in \<open>simp add: store_ok_def\<close>)
  qed
qed

lemma respond_loop_length:
  "fst (respond_loop svc sid ss acc w) = Inr out \<Longrightarrow>
   length out = length acc + length (actionable ss)"
proof (induction ss arbitrary: acc w)
  case Nil
  then show ?case by (simp add: actionable_def)
next
  case (Cons s ss)
  show ?case
  proof (cases "actionRequired (se_summary s)")
    case False
    then show ?thesis using Cons by (simp add: actionable_def)
  next
    case act: True
    show ?thesis
    proof (cases "store_ok 3 w")
      case False
      from respond_step_fails[OF act False, of svc sid ss acc] Cons.prems
      show ?thesis by auto
    next
      case True
      from Cons.prems have
        "length out = length (acc @ [\<lparr> re_message_uuid = response_uuid w,
                        re_response = message (generateAiResponse svc s (getPropertyData_result w sid)),
                        re_metadata = generateAiResponse svc s (getPropertyData_result w sid) \<rparr>])
                      + length (actionable ss)"
        unfolding respond_step_ok[OF act True] by (rule Cons.IH)
      with act show ?thesis by (simp add: actionable_def)
    qed
  qed
qed

lemma buildAiResponseFromSummaries_returns:
  assumes "store_ok (Suc (3 * length (actionable ss))) w"
  shows "returned (fst (buildAiResponseFromSummaries svc sid ss w))
         \<and> length (emitted (fst (buildAiResponseFromSummaries svc sid ss w)))
             = length (actionable ss)"
proof -
  let ?w1 = "w\<lparr>faults := tl (faults w)\<rparr>"
  let ?n = "length (filter (\<lambda>s. actionRequired (se_summary s)) ss)"
  from assms have c: "\<not> fst (client_call w)" and ok: "store_ok (3 * ?n) ?w1"
    by (cases "faults w"; simp add: store_ok_def fst_client_call actionable_def)+
  have run: "buildAiResponseFromSummaries svc sid ss w = respond_loop svc sid ss [] ?w1"
    using c by (simp add: buildAiResponseFromSummaries_def snd_client_call)
  have r: "returned (fst (respond_loop svc sid ss [] ?w1))"
    using respond_loop_returns[OF ok] .
  then obtain out where out: "fst (respond_loop svc sid ss [] ?w1) = Inr out"
    by (cases "fst (respond_loop svc sid ss [] ?w1)") (auto simp: returned_def)
  from respond_loop_length[OF out] have "length out = length (actionable ss)"
    by simp
  with r out show ?thesis
    by (simp add: run emitted_def)
qed



lemma length_random_draws [simp]: "length (random_draws n w) = n"
  by (simp add: random_draws_def)


lemma reply_uuids_upd [simp]:
  "reply_uuids n (w\<lparr>faults := a\<rparr>) = reply_uuids n w"
  "reply_uuids n (w\<lparr>message_log := b\<rparr>) = reply_uuids n w"
  "reply_uuids n (w\<lparr>sandbox_ai_processing := c\<rparr>) = reply_uuids n w"
  by (simp_all add: reply_uuids_def random_draws_def)

lemma getPropertyData_result_upd2 [simp]:
  "getPropertyData_result (w\<lparr>randoms := a\<rparr>) sid = getPropertyData_result w sid"
  "getPropertyData_result (w\<lparr>message_log := b\<rparr>) sid = getPropertyData_result w sid"
  "getPropertyData_result (w\<lparr>sandbox_ai_processing := c\<rparr>) sid = getPropertyData_result w sid"
  by (simp_all add: getPropertyData_result_def split: option.splits)

lemma expected_reply_upd [simp]:
  "expected_reply svc (w\<lparr>faults := d\<rparr>) sid s = expected_reply svc w sid s"
  "expected_reply svc (w\<lparr>randoms := a\<rparr>) sid s = expected_reply svc w sid s"
  "expected_reply svc (w\<lparr>message_log := b\<rparr>) sid s = expected_reply svc w sid s"
  "expected_reply svc (w\<lparr>sandbox_ai_processing := c\<rparr>) sid s = expected_reply svc w sid s"
  by (simp_all add: expected_reply_def completion_reply_def split: option.splits)

lemma outbound_message_upd2 [simp]:
  "outbound_message (w\<lparr>message_log := b\<rparr>) sid u s r = outbound_message w sid u s r"
  "outbound_message (w\<lparr>sandbox_ai_processing := c\<rparr>) sid u s r = outbound_message w sid u s r"
  by (simp_all add: outbound_message_def)

lemma response_record_upd [simp]:
  "response_record svc (w\<lparr>faults := d\<rparr>) sid u s r = response_record svc w sid u s r"
  "response_record svc (w\<lparr>randoms := a\<rparr>) sid u s r = response_record svc w sid u s r"
  "response_record svc (w\<lparr>message_log := b\<rparr>) sid u s r = response_record svc w sid u s r"
  "response_record svc (w\<lparr>sandbox_ai_processing := c\<rparr>) sid u s r = response_record svc w sid u s r"
  by (simp_all add: response_record_def)




lemma answered_upd [simp]:
  "answered (w\<lparr>faults := a\<rparr>) ss = answered w ss"
  "answered (w\<lparr>message_log := b\<rparr>) ss = answered w ss"
  "answered (w\<lparr>sandbox_ai_processing := c\<rparr>) ss = answered w ss"
  by (simp_all add: answered_def)



lemma length_answered [simp]: "length (answered w ss) = length (actionable ss)"
  by (simp add: answered_def reply_uuids_def)





lemma outbound_message_addressing:
  "ml_from_number (outbound_message w sid u s r) = ''System''
   \<and> ml_to_number (outbound_message w sid u s r) = ''Guest''
   \<and> ml_message_body (outbound_message w sid u s r) = message r
   \<and> ml_message_uuid (outbound_message w sid u s r) = u
   \<and> sap_message_uuid (response_record svc w sid u s r) = u
   \<and> sap_processing_type (response_record svc w sid u s r) = ''response_generation''
   \<and> sap_processing_status (response_record svc w sid u s r) = ''completed''"
  by (simp add: outbound_message_def response_record_def from_number_of_def or_default_def)

text \<open>
  C5: the reply to an actionable summary should be sent from the system to the sender of
  the original inbound message. For the inbound message \<open>m1\<close> of the demo session, sent
  from \<open>+15550100\<close>, the summarizer and then the responder leave the log with the inbound
  row and one outbound row from \<open>System\<close> whose recipient is the literal \<open>Guest\<close>, not
  \<open>+15550100\<close>: \<open>summary.original_message\<close> is the body text, and a string has no
  \<open>from_number\<close>.
\<close>

theorem reply_recipient_is_literal_guest:
  "ml_from_number (inbound ''m1'' 1000 ''I lost my key'') = ''+15550100''
   \<and> map (\<lambda>m. (ml_message_type m, ml_from_number m, ml_to_number m))
       (message_log (snd (buildAiResponseFromSummaries mock_service ''s1'' [key_entry]
            (snd (processSummarizeMessages mock_service ''s1'' 1 key_world)))))
     = [(''Inbound'', ''+15550100'', ''System''), (''Outbound'', ''System'', ''Guest'')]"
  using key_after
  by (simp add: key_entry_actionable buildAiResponseFromSummaries_def fst_client_call snd_client_call
        snd_Math_random Let_def outbound_message_def from_number_of_def or_default_def inbound_def)





subsection \<open>The task generator\<close>

lemma needsTask_iff:
  "needsTask s = (actionRequired s
       \<and> (priority s = ''maintenance'' \<or> priority s = ''cleaning'' \<or> priority s = ''urgent''))"
  by (simp add: needsTask_def)

lemma determineTaskDetails_maintenance:
  "category s = ''maintenance'' \<Longrightarrow>
     td_type (determineTaskDetails s) = ''maintenance''
     \<and> td_assignee_name (determineTaskDetails s) = ''Maintenance Team''"
  by (simp add: determineTaskDetails_def Let_def)

lemma wifi_entry_gate:
  "category (se_summary wifi_entry) = ''maintenance''
   \<and> priority (se_summary wifi_entry) = ''medium'' \<and> \<not> needsTask (se_summary wifi_entry)"
  by code_simp

text \<open>
  C1: a summary with \<open>actionRequired = true\<close> and category \<open>maintenance\<close> should yield a
  task of type \<open>maintenance\<close> assigned to the Maintenance Team. The fallback summary of
  "The wifi is broken" is such a summary, with priority \<open>medium\<close>; the gate of
  \<open>createStaffTasks\<close> tests the priority against \<open>maintenance\<close>, \<open>cleaning\<close>, \<open>urgent\<close>, so it
  is closed, and the stage returns no task and inserts none.
\<close>

theorem maintenance_summary_yields_no_task:
  "actionRequired (se_summary wifi_entry)
   \<and> category (se_summary wifi_entry) = ''maintenance''
   \<and> priority (se_summary wifi_entry) = ''medium''
   \<and> \<not> needsTask (se_summary wifi_entry)
   \<and> fst (createStaffTasks ''s1'' [wifi_entry] key_world) = Inr []
   \<and> sandbox_tasks (snd (createStaffTasks ''s1'' [wifi_entry] key_world)) = []"
  by (simp add: wifi_entry_actionable wifi_entry_gate createStaffTasks_def fst_client_call snd_client_call
        key_world_def demo_world_def)

end
